theory Spec2Isabelle
  imports Complex_Main
begin

section \<open>The sidebar controls\<close>

text \<open>
  The script reads its parameters from module-level variables that the sidebar widgets
  fill in: a select box with four strings, integer sliders for the frequency and the
  phase, floating-point sliders for amplitude, damping and speed, a colour picker and
  four check boxes. Every function of the script reads these globals; here they are one
  record that is passed to the functions reading them. Floating-point numbers are
  modelled as real numbers, so every statement below is one of exact real arithmetic.
\<close>

record controls =
  waveform :: string
  freq :: int
  amplitude :: real
  phase :: int
  damping :: real
  speed :: real
  color :: string
  show_envelope :: bool
  show_particles :: bool
  grid_visible :: bool
  dark_mode :: bool

text \<open>The values the widgets show before the user touches them.\<close>

definition default_controls :: controls where
  "default_controls =
     \<lparr> waveform = ''Sine'', freq = 5, amplitude = 8 / 10, phase = 0, damping = 0,
       speed = 1, color = ''#1E90FF'', show_envelope = False, show_particles = False,
       grid_visible = True, dark_mode = False \<rparr>"

section \<open>The waveform evaluator\<close>

text \<open>
  The remainder operator of Python and NumPy on floating-point numbers takes the sign of
  the divisor: \<open>a % m = a - m * floor (a / m)\<close>.
\<close>

definition py_mod :: "real \<Rightarrow> real \<Rightarrow> real" where
  "py_mod a m = a - m * of_int \<lfloor>a / m\<rfloor>"

text \<open>
  The amplitude after damping, lines 94 to 99 of \<open>generate_waveform\<close>: an exponential
  decay in the distance from the origin when the damping is positive, the amplitude
  unchanged otherwise.
\<close>

definition effective_amp :: "real \<Rightarrow> real \<Rightarrow> real \<Rightarrow> real" where
  "effective_amp amp dmp x =
     (if dmp > 0 then
        let damping_factor = exp (- dmp * \<bar>x\<bar>) in amp * damping_factor
      else amp)"

text \<open>
  \<open>generate_waveform\<close> at one position \<open>x\<close>. The speed is read from the controls. The
  chain of comparisons on the name of the waveform has no final \<open>else\<close>: for any other
  string the Python function returns \<open>None\<close>.
\<close>

definition generate_waveform ::
  "controls \<Rightarrow> real \<Rightarrow> real \<Rightarrow> string \<Rightarrow> real \<Rightarrow> real \<Rightarrow> real \<Rightarrow> real \<Rightarrow> real option" where
  "generate_waveform c x time_point waveform_type frq amp phase_rad dmp =
     (let phase_adjusted = phase_rad + time_point * frq * 2 * pi * speed c;
          eff = effective_amp amp dmp x
      in if waveform_type = ''Sine'' then
           Some (eff * sin (2 * pi * frq * x + phase_adjusted))
         else if waveform_type = ''Square'' then
           Some (eff * sgn (sin (2 * pi * frq * x + phase_adjusted)))
         else if waveform_type = ''Sawtooth'' then
           Some (eff * (2 * py_mod (frq * x + phase_adjusted / (2 * pi)) 1 - 1))
         else if waveform_type = ''Triangle'' then
           Some (eff * (2 * \<bar>2 * py_mod (frq * x + phase_adjusted / (2 * pi)) 1 - 1\<bar> - 1))
         else None)"

text \<open>
  The evaluator with the sine left open. \<open>numpy.sin\<close> is a library function on
  floating-point numbers; its value at a multiple of \<open>pi\<close> is in general a tiny
  non-zero number, where the exact sine is 0. \<open>generate_waveform_with sn\<close> is the same
  function as above with \<open>sn\<close> in the place of the sine, \<open>sn u\<close> standing for the value
  that the sine call returns for the argument \<open>u\<close>. With the exact sine it is
  \<open>generate_waveform\<close>.
\<close>

definition generate_waveform_with ::
  "(real \<Rightarrow> real) \<Rightarrow> controls \<Rightarrow> real \<Rightarrow> real \<Rightarrow> string \<Rightarrow> real \<Rightarrow> real \<Rightarrow> real \<Rightarrow> real
     \<Rightarrow> real option" where
  "generate_waveform_with sn c x time_point waveform_type frq amp phase_rad dmp =
     (let phase_adjusted = phase_rad + time_point * frq * 2 * pi * speed c;
          eff = effective_amp amp dmp x
      in if waveform_type = ''Sine'' then
           Some (eff * sn (2 * pi * frq * x + phase_adjusted))
         else if waveform_type = ''Square'' then
           Some (eff * sgn (sn (2 * pi * frq * x + phase_adjusted)))
         else if waveform_type = ''Sawtooth'' then
           Some (eff * (2 * py_mod (frq * x + phase_adjusted / (2 * pi)) 1 - 1))
         else if waveform_type = ''Triangle'' then
           Some (eff * (2 * \<bar>2 * py_mod (frq * x + phase_adjusted / (2 * pi)) 1 - 1\<bar> - 1))
         else None)"


text \<open>
  The variant of the evaluator in which the damped formula is applied whatever the
  damping rate is, as the specification words the damped case: the effective amplitude
  is always \<open>amplitude * exp (- dampingRate * |x|)\<close>. It is compared with the source's
  evaluator below.
\<close>

definition effective_amp_always_damped :: "real \<Rightarrow> real \<Rightarrow> real \<Rightarrow> real" where
  "effective_amp_always_damped amp dmp x = amp * exp (- dmp * \<bar>x\<bar>)"

definition generate_waveform_always_damped ::
  "controls \<Rightarrow> real \<Rightarrow> real \<Rightarrow> string \<Rightarrow> real \<Rightarrow> real \<Rightarrow> real \<Rightarrow> real \<Rightarrow> real option" where
  "generate_waveform_always_damped c x time_point waveform_type frq amp phase_rad dmp =
     (let phase_adjusted = phase_rad + time_point * frq * 2 * pi * speed c;
          eff = effective_amp_always_damped amp dmp x
      in if waveform_type = ''Sine'' then
           Some (eff * sin (2 * pi * frq * x + phase_adjusted))
         else if waveform_type = ''Square'' then
           Some (eff * sgn (sin (2 * pi * frq * x + phase_adjusted)))
         else if waveform_type = ''Sawtooth'' then
           Some (eff * (2 * py_mod (frq * x + phase_adjusted / (2 * pi)) 1 - 1))
         else if waveform_type = ''Triangle'' then
           Some (eff * (2 * \<bar>2 * py_mod (frq * x + phase_adjusted / (2 * pi)) 1 - 1\<bar> - 1))
         else None)"

text \<open>
  The script calls the evaluator on NumPy arrays, which evaluate the chosen expression at
  every element. The branch is chosen by the name alone, so on the grids of the script
  (1000 and 30 positions) the result is \<open>None\<close> exactly when the name is none of the four.
\<close>

definition generate_waveform_array ::
  "controls \<Rightarrow> real list \<Rightarrow> real \<Rightarrow> string \<Rightarrow> real \<Rightarrow> real \<Rightarrow> real \<Rightarrow> real \<Rightarrow> real list option" where
  "generate_waveform_array c xs time_point waveform_type frq amp phase_rad dmp =
     those (map (\<lambda>x. generate_waveform c x time_point waveform_type frq amp phase_rad dmp) xs)"

section \<open>Sample grids\<close>

text \<open>
  \<open>numpy.linspace start stop num\<close> with its default \<open>endpoint=True\<close>: \<open>num\<close> samples
  \<open>start + i * step\<close> with \<open>step = (stop - start) / (num - 1)\<close>, the last one then
  overwritten with \<open>stop\<close> when there is more than one sample. For a single sample the
  result is \<open>[start]\<close>.
\<close>

definition linspace :: "real \<Rightarrow> real \<Rightarrow> nat \<Rightarrow> real list" where
  "linspace start stop num =
     (let dv = num - 1;
          step = (stop - start) / real dv;
          y = map (\<lambda>i. start + real i * step) [0..<num]
      in if num > 1 then y[num - 1 := stop] else y)"

definition deg2rad :: "real \<Rightarrow> real" where
  "deg2rad d = d * (pi / 180)"

text \<open>The time points of \<open>update_animation\<close>, line 236.\<close>

definition time_points :: "real list" where
  "time_points = linspace 0 1 20"

section \<open>Frames\<close>

text \<open>
  A frame is the chart that \<open>create_animation_frame\<close> draws before it is rasterised:
  theme, axes, grid, the wave line, the optional envelope and particles, and the values
  shown in the information box. Rasterising is a function of this content and is not
  modelled further.
\<close>

record frame =
  style :: string
  xlim :: "real \<times> real"
  ylim :: "real \<times> real"
  grid :: "bool \<times> string"
  line :: "real list \<times> real list"
  line_color :: string
  envelope :: "(real list \<times> real list) option"
  particles :: "(real list \<times> real list) option"
  info :: "string \<times> int \<times> real"
  info_face :: string

datatype py_error = ValueError | IndexError | ZeroDivisionError | LibraryError

text \<open>
  The chart at one time point. When the evaluator returns \<open>None\<close>, plotting it raises
  \<open>ValueError\<close>; this is the only error that the function's own data can cause.
\<close>

definition create_animation_frame :: "controls \<Rightarrow> real \<Rightarrow> py_error + frame" where
  "create_animation_frame c time_point =
     (let grid_color = (if dark_mode c then ''gray'' else ''lightgray'');
          phase_rad = deg2rad (of_int (phase c));
          x = linspace 0 2 1000
      in case generate_waveform_array c x time_point (waveform c) (of_int (freq c))
                (amplitude c) phase_rad (damping c) of
           None \<Rightarrow> Inl ValueError
         | Some y \<Rightarrow>
            (let env = (if show_envelope c \<and> damping c > 0
                        then Some (map (\<lambda>x. amplitude c * exp (- damping c * \<bar>x\<bar>)) x,
                                   map (\<lambda>x. - amplitude c * exp (- damping c * \<bar>x\<bar>)) x)
                        else None);
                 fig = \<lparr> style = (if dark_mode c then ''dark_background'' else ''default''),
                         xlim = (0, 2), ylim = (- 12 / 10, 12 / 10),
                         grid = (grid_visible c, grid_color),
                         line = (x, y), line_color = color c,
                         envelope = env, particles = None,
                         info = (waveform c, freq c, amplitude c),
                         info_face = (if \<not> dark_mode c then ''white'' else ''black'') \<rparr>
             in if show_particles c then
                  (let particle_x = linspace 0 2 30
                   in case generate_waveform_array c particle_x time_point (waveform c)
                             (of_int (freq c)) (amplitude c) phase_rad (damping c) of
                        None \<Rightarrow> Inl ValueError
                      | Some particle_y \<Rightarrow> Inr (fig\<lparr>particles := Some (particle_x, particle_y)\<rparr>))
                else Inr fig))"

section \<open>The animation loop and its fallback\<close>

text \<open>
  What the script does to the page is kept in a record: the image in the animation
  placeholder, the progress bar (absent, or its value), the time slept and the warnings
  shown. \<open>calls\<close> counts the calls made so far to code outside the script (drawing a
  frame, the page widgets, \<open>time.sleep\<close>). Any of these calls may raise; which ones do is
  given by a predicate on the number of the call. A call that raises changes nothing but
  the count.
\<close>

record world =
  calls :: nat
  placeholder :: "frame option"
  progress_bar :: "real option"
  slept :: real
  warnings :: "string list"

definition initial_world :: world where
  "initial_world = \<lparr> calls = 0, placeholder = None, progress_bar = None, slept = 0, warnings = [] \<rparr>"

type_synonym failures = "nat \<Rightarrow> bool"

definition tick :: "world \<Rightarrow> world" where
  "tick w = w\<lparr>calls := Suc (calls w)\<rparr>"

definition render :: "failures \<Rightarrow> controls \<Rightarrow> real \<Rightarrow> world \<Rightarrow> (py_error + frame) \<times> world" where
  "render fails c time_point w =
     (if fails (calls w) then (Inl LibraryError, tick w)
      else (create_animation_frame c time_point, tick w))"

definition st_progress :: "failures \<Rightarrow> real \<Rightarrow> world \<Rightarrow> (py_error + unit) \<times> world" where
  "st_progress fails v w =
     (if fails (calls w) then (Inl LibraryError, tick w)
      else (Inr (), (tick w)\<lparr>progress_bar := Some v\<rparr>))"

definition progress_empty :: "failures \<Rightarrow> world \<Rightarrow> (py_error + unit) \<times> world" where
  "progress_empty fails w =
     (if fails (calls w) then (Inl LibraryError, tick w)
      else (Inr (), (tick w)\<lparr>progress_bar := None\<rparr>))"

definition placeholder_image :: "failures \<Rightarrow> frame \<Rightarrow> world \<Rightarrow> (py_error + unit) \<times> world" where
  "placeholder_image fails img w =
     (if fails (calls w) then (Inl LibraryError, tick w)
      else (Inr (), (tick w)\<lparr>placeholder := Some img\<rparr>))"

definition time_sleep :: "failures \<Rightarrow> real \<Rightarrow> world \<Rightarrow> (py_error + unit) \<times> world" where
  "time_sleep fails secs w =
     (if fails (calls w) then (Inl LibraryError, tick w)
      else (Inr (), (tick w)\<lparr>slept := slept w + secs\<rparr>))"

definition st_warning :: "failures \<Rightarrow> string \<Rightarrow> world \<Rightarrow> (py_error + unit) \<times> world" where
  "st_warning fails msg w =
     (if fails (calls w) then (Inl LibraryError, tick w)
      else (Inr (), (tick w)\<lparr>warnings := warnings w @ [msg]\<rparr>))"

text \<open>
  The first loop of \<open>update_animation\<close>, lines 241 to 243: for each numbered time
  point, draw the frame, append it, and move the progress bar. \<open>n\<close> is
  \<open>len(time_points)\<close>.
\<close>

fun generate_frames ::
  "failures \<Rightarrow> controls \<Rightarrow> nat \<Rightarrow> (nat \<times> real) list \<Rightarrow> frame list \<Rightarrow> world
     \<Rightarrow> (py_error + frame list) \<times> world" where
  "generate_frames fails c n [] frames w = (Inr frames, w)"
| "generate_frames fails c n ((i, t) # rest) frames w =
     (case render fails c t w of
        (Inl e, w1) \<Rightarrow> (Inl e, w1)
      | (Inr img, w1) \<Rightarrow>
          (case st_progress fails ((real i + 1) / real n) w1 of
             (Inl e, w2) \<Rightarrow> (Inl e, w2)
           | (Inr u, w2) \<Rightarrow> generate_frames fails c n rest (frames @ [img]) w2))"

text \<open>
  The second loop, lines 248 to 252, is \<open>while True\<close>: it ends only by an exception.
  The model runs it for a given number of rounds; \<open>Playing\<close> says that the loop is
  still going after them.
\<close>

datatype outcome = Playing | Raised py_error

fun playback ::
  "failures \<Rightarrow> controls \<Rightarrow> frame list \<Rightarrow> nat \<Rightarrow> nat \<Rightarrow> world \<Rightarrow> outcome \<times> world" where
  "playback fails c frames 0 frame_idx w = (Playing, w)"
| "playback fails c frames (Suc rounds) frame_idx w =
     (if length frames \<le> frame_idx then (Raised IndexError, w)
      else case placeholder_image fails (frames ! frame_idx) w of
        (Inl e, w1) \<Rightarrow> (Raised e, w1)
      | (Inr u, w1) \<Rightarrow>
          (let frame_idx' = (frame_idx + 1) mod length frames
           in if speed c = 0 then (Raised ZeroDivisionError, w1)
              else case time_sleep fails ((5 / 100) / speed c) w1 of
                (Inl e, w2) \<Rightarrow> (Raised e, w2)
              | (Inr u, w2) \<Rightarrow> playback fails c frames rounds frame_idx' w2))"

definition update_animation :: "failures \<Rightarrow> controls \<Rightarrow> nat \<Rightarrow> world \<Rightarrow> outcome \<times> world" where
  "update_animation fails c rounds w =
     (case st_progress fails 0 w of
        (Inl e, w1) \<Rightarrow> (Raised e, w1)
      | (Inr u, w1) \<Rightarrow>
          (case generate_frames fails c (length time_points) (enumerate 0 time_points) [] w1 of
             (Inl e, w2) \<Rightarrow> (Raised e, w2)
           | (Inr frames, w2) \<Rightarrow>
               (case progress_empty fails w2 of
                  (Inl e, w3) \<Rightarrow> (Raised e, w3)
                | (Inr u, w3) \<Rightarrow> playback fails c frames rounds 0 w3)))"

text \<open>
  Lines 255 to 260: the call of \<open>update_animation\<close> inside \<open>try\<close>, and the handler that
  catches everything, draws the frame of time 0, shows it and warns. An exception raised
  inside the handler is not caught by anything.
\<close>

datatype final = Still_playing | Warned | Uncaught py_error

definition warning_text :: string where
  "warning_text = ''Animation paused. Adjust parameters to see changes.''"

definition run_animation :: "failures \<Rightarrow> controls \<Rightarrow> nat \<Rightarrow> world \<Rightarrow> final \<times> world" where
  "run_animation fails c rounds w =
     (case update_animation fails c rounds w of
        (Playing, w1) \<Rightarrow> (Still_playing, w1)
      | (Raised e, w1) \<Rightarrow>
          (case render fails c 0 w1 of
             (Inl e1, w2) \<Rightarrow> (Uncaught e1, w2)
           | (Inr img, w2) \<Rightarrow>
               (case placeholder_image fails img w2 of
                  (Inl e2, w3) \<Rightarrow> (Uncaught e2, w3)
                | (Inr u, w3) \<Rightarrow>
                    (case st_warning fails warning_text w3 of
                       (Inl e3, w4) \<Rightarrow> (Uncaught e3, w4)
                     | (Inr u, w4) \<Rightarrow> (Warned, w4)))))"

text \<open>Failure predicates used in the examples below.\<close>

definition never_fails :: failures where
  "never_fails k = False"

definition fails_once_at :: "nat \<Rightarrow> failures" where
  "fails_once_at j k = (k = j)"

definition fails_from :: "nat \<Rightarrow> failures" where
  "fails_from j k = (j \<le> k)"

section \<open>Properties of the evaluator\<close>

lemma py_mod_one: "py_mod a 1 = frac a"
  by (simp add: py_mod_def frac_def)

lemma py_mod_one_shift: "py_mod (a + 1) 1 = py_mod a 1"
  by (simp add: py_mod_def)

lemma effective_amp_damped: "0 \<le> dmp \<Longrightarrow> effective_amp amp dmp x = amp * exp (- dmp * \<bar>x\<bar>)"
  by (cases "dmp = 0") (simp_all add: effective_amp_def)

lemma sine_bound:
  assumes "0 \<le> dmp" and "0 \<le> amp"
  shows "\<bar>effective_amp amp dmp x * sin u\<bar> \<le> amp * exp (- dmp * \<bar>x\<bar>)"
proof -
  have pos: "0 \<le> amp * exp (- dmp * \<bar>x\<bar>)" using assms(2) by simp
  have "\<bar>effective_amp amp dmp x * sin u\<bar> = \<bar>amp * exp (- dmp * \<bar>x\<bar>)\<bar> * \<bar>sin u\<bar>"
    unfolding effective_amp_damped [OF assms(1)] by (rule abs_mult)
  also have "\<dots> = (amp * exp (- dmp * \<bar>x\<bar>)) * \<bar>sin u\<bar>"
    using pos by (simp only: abs_of_nonneg)
  also have "\<dots> \<le> (amp * exp (- dmp * \<bar>x\<bar>)) * 1"
    by (rule mult_left_mono [OF _ pos]) simp
  finally show ?thesis by simp
qed

text \<open>
  Claim C5. Damping is strictly monotone: at a fixed position \<open>x > 0\<close>, with a positive
  amplitude and damping rates \<open>0 < d1 < d2\<close>, the effective amplitude computed with \<open>d1\<close>
  is strictly greater than the one computed with \<open>d2\<close>.
\<close>

theorem damping_strictly_monotone:
  assumes "0 < x" and "0 < amp" and "0 < d1" and "d1 < d2"
  shows "effective_amp amp d2 x < effective_amp amp d1 x"
proof -
  from assms have "- d2 * \<bar>x\<bar> < - d1 * \<bar>x\<bar>" by simp
  then have "exp (- d2 * \<bar>x\<bar>) < exp (- d1 * \<bar>x\<bar>)" by (simp only: exp_less_cancel_iff)
  with \<open>0 < amp\<close> have "amp * exp (- d2 * \<bar>x\<bar>) < amp * exp (- d1 * \<bar>x\<bar>)" by simp
  with assms show ?thesis by (simp add: effective_amp_def)
qed

theorem damping_strictly_monotone_witness:
  "(0::real) < 1 \<and> (0::real) < 8 / 10 \<and> (0::real) < 1 / 10 \<and> (1 / 10 :: real) < 2 / 10
   \<and> effective_amp (8 / 10) (2 / 10) 1 < effective_amp (8 / 10) (1 / 10) 1"
  using damping_strictly_monotone [of 1 "8 / 10" "1 / 10" "2 / 10"] by simp

text \<open>
  Claim C2. For every position, time and parameters with the amplitude in \<open>[0.1, 1]\<close> and
  a damping rate that is not negative, the Sine evaluator returns a value \<open>y\<close> with
  \<open>|y| \<le> amplitude * exp (- dampingRate * |x|)\<close>; with the damping rate 0 the value
  lies between \<open>- amplitude\<close> and \<open>amplitude\<close>.
\<close>

theorem sine_within_envelope:
  assumes "0 \<le> dmp" and "1 / 10 \<le> amp" and "amp \<le> 1"
  shows "(\<exists>y. generate_waveform c x t ''Sine'' frq amp phase_rad dmp = Some y
              \<and> \<bar>y\<bar> \<le> amp * exp (- dmp * \<bar>x\<bar>))
       \<and> (\<exists>y. generate_waveform c x t ''Sine'' frq amp phase_rad 0 = Some y
              \<and> - amp \<le> y \<and> y \<le> amp)"
proof -
  define u where "u = 2 * pi * frq * x + (phase_rad + t * frq * 2 * pi * speed c)"
  from assms(2) have amp: "0 \<le> amp" by simp
  have "generate_waveform c x t ''Sine'' frq amp phase_rad d = Some (effective_amp amp d x * sin u)" for d
    by (simp add: generate_waveform_def u_def Let_def)
  moreover have "\<bar>effective_amp amp dmp x * sin u\<bar> \<le> amp * exp (- dmp * \<bar>x\<bar>)"
    by (rule sine_bound [OF assms(1) amp])
  moreover have "\<bar>effective_amp amp 0 x * sin u\<bar> \<le> amp"
    using sine_bound [OF order_refl amp, of x u] by simp
  then have "- amp \<le> effective_amp amp 0 x * sin u \<and> effective_amp amp 0 x * sin u \<le> amp"
    by (simp only: abs_le_iff) simp
  ultimately show ?thesis by simp
qed

theorem sine_within_envelope_witness:
  "(0::real) \<le> 1 / 10 \<and> (1 / 10 :: real) \<le> 8 / 10 \<and> (8 / 10 :: real) \<le> 1
   \<and> (\<exists>y. generate_waveform default_controls 1 0 ''Sine'' 5 (8 / 10) 0 (1 / 10) = Some y
          \<and> \<bar>y\<bar> \<le> 8 / 10 * exp (- (1 / 10) * \<bar>1\<bar>))
   \<and> (\<exists>y. generate_waveform default_controls 1 0 ''Sine'' 5 (8 / 10) 0 0 = Some y
          \<and> - (8 / 10) \<le> y \<and> y \<le> 8 / 10)"
  using sine_within_envelope [of "1 / 10" "8 / 10" default_controls 1 0 5 0] by simp

lemma generate_waveform_with_exact_sine:
  "generate_waveform_with sin c x t k frq amp phase_rad dmp
     = generate_waveform c x t k frq amp phase_rad dmp"
  by (simp add: generate_waveform_with_def generate_waveform_def)



text \<open>
  Claim C4. With a positive frequency and the damping rate 0, the Sawtooth and the
  Triangle outputs are periodic in the position with period \<open>1 / frequency\<close>:
  the value at \<open>x + 1 / frequency\<close> is the value at \<open>x\<close>, in real arithmetic.
\<close>

theorem sawtooth_triangle_periodic:
  assumes "0 < frq"
  shows "generate_waveform c (x + 1 / frq) t ''Sawtooth'' frq amp phase_rad 0
           = generate_waveform c x t ''Sawtooth'' frq amp phase_rad 0
       \<and> generate_waveform c (x + 1 / frq) t ''Triangle'' frq amp phase_rad 0
           = generate_waveform c x t ''Triangle'' frq amp phase_rad 0"
proof -
  have "frq * (x + 1 / frq) + p = (frq * x + p) + 1" for p
    using assms by (simp add: distrib_left)
  then have "py_mod (frq * (x + 1 / frq) + p) 1 = py_mod (frq * x + p) 1" for p
    by (simp only: py_mod_one_shift)
  then show ?thesis
    by (simp add: generate_waveform_def Let_def effective_amp_def)
qed

theorem sawtooth_triangle_periodic_witness:
  "(0::real) < 5
   \<and> generate_waveform default_controls (3 / 100 + 1 / 5) 0 ''Sawtooth'' 5 (8 / 10) 0 0
       = generate_waveform default_controls (3 / 100) 0 ''Sawtooth'' 5 (8 / 10) 0 0
   \<and> generate_waveform default_controls (3 / 100 + 1 / 5) 0 ''Triangle'' 5 (8 / 10) 0 0
       = generate_waveform default_controls (3 / 100) 0 ''Triangle'' 5 (8 / 10) 0 0"
  using sawtooth_triangle_periodic [of 5 default_controls "3 / 100" 0 "8 / 10" 0] by simp

text \<open>
  Claim C8. Damping has no effect at the origin: for every positive damping rate, every
  time, every waveform name and all other parameters, the evaluator's result at \<open>x = 0\<close>
  is its result at \<open>x = 0\<close> with the damping rate 0.
\<close>

theorem damping_no_effect_at_origin:
  assumes "0 < dmp"
  shows "generate_waveform c 0 t k frq amp phase_rad dmp
           = generate_waveform c 0 t k frq amp phase_rad 0"
  using assms by (simp add: generate_waveform_def Let_def effective_amp_def)

theorem damping_no_effect_at_origin_witness:
  "(0::real) < 1 / 10
   \<and> generate_waveform default_controls 0 (1 / 19) ''Triangle'' 5 (8 / 10) 0 (1 / 10)
       = generate_waveform default_controls 0 (1 / 19) ''Triangle'' 5 (8 / 10) 0 0"
  using damping_no_effect_at_origin [of "1 / 10" default_controls "1 / 19" "''Triangle''" 5 "8 / 10" 0]
  by simp

text \<open>
  Claim C9. The Sawtooth output never reaches its upper bound: when the effective
  amplitude is positive, the output lies in the half-open interval from
  \<open>- effectiveAmplitude\<close> (included) to \<open>effectiveAmplitude\<close> (excluded).
\<close>

theorem sawtooth_half_open:
  assumes "0 < effective_amp amp dmp x"
  shows "\<exists>y. generate_waveform c x t ''Sawtooth'' frq amp phase_rad dmp = Some y
           \<and> - effective_amp amp dmp x \<le> y \<and> y < effective_amp amp dmp x"
proof -
  define f where "f = frq * x + (phase_rad + t * frq * 2 * pi * speed c) / (2 * pi)"
  have "0 \<le> frac f" and "frac f < 1" by (simp_all add: frac_lt_1)
  then have "- 1 \<le> 2 * frac f - 1" and "2 * frac f - 1 < 1" by simp_all
  with assms have
    "effective_amp amp dmp x * (- 1) \<le> effective_amp amp dmp x * (2 * frac f - 1)"
    "effective_amp amp dmp x * (2 * frac f - 1) < effective_amp amp dmp x * 1"
    by (simp_all only: mult_le_cancel_left_pos mult_less_cancel_left_pos)
  then show ?thesis
    by (simp add: generate_waveform_def Let_def py_mod_one f_def)
qed

theorem sawtooth_half_open_witness:
  "0 < effective_amp (8 / 10) 0 (3 / 100)
   \<and> (\<exists>y. generate_waveform default_controls (3 / 100) 0 ''Sawtooth'' 5 (8 / 10) 0 0 = Some y
          \<and> - effective_amp (8 / 10) 0 (3 / 100) \<le> y \<and> y < effective_amp (8 / 10) 0 (3 / 100))"
proof -
  have pos: "0 < effective_amp (8 / 10) 0 (3 / 100)" by (simp add: effective_amp_def)
  from pos sawtooth_half_open [OF pos, of default_controls 0 5 0] show ?thesis by simp
qed

text \<open>
  Claim C10. The two damping branches agree at the boundary: with the damping rate 0,
  the evaluator (which then keeps the amplitude unchanged) returns what the variant
  that always applies \<open>amplitude * exp (- dampingRate * |x|)\<close> returns at the damping
  rate 0, for every position, time, waveform name and remaining parameters.
\<close>

theorem damping_branches_agree_at_zero:
  "generate_waveform c x t k frq amp phase_rad 0
     = generate_waveform_always_damped c x t k frq amp phase_rad 0"
  by (simp add: generate_waveform_def generate_waveform_always_damped_def
        effective_amp_def effective_amp_always_damped_def)

section \<open>Properties of the frame generator\<close>

lemma length_linspace: "length (linspace a b n) = n"
  by (simp add: linspace_def Let_def)

lemma nth_linspace:
  assumes "i < n" and "1 < n"
  shows "linspace a b n ! i = (if i = n - 1 then b else a + real i * ((b - a) / real (n - 1)))"
  using assms by (simp add: linspace_def Let_def nth_list_update)

lemma length_time_points: "length time_points = 20"
  by (simp add: time_points_def length_linspace)

lemma nth_time_points:
  assumes "i < 20"
  shows "time_points ! i = real i / 19"
proof (cases "i = 19")
  case True
  then show ?thesis by (simp add: time_points_def nth_linspace)
next
  case False
  with assms show ?thesis by (simp add: time_points_def nth_linspace)
qed

lemma time_points_first: "\<exists>ts. time_points = 0 # ts"
proof (cases time_points)
  case Nil
  with length_time_points show ?thesis by simp
next
  case (Cons a ts)
  have "a = time_points ! 0" by (simp add: Cons)
  also have "\<dots> = 0" using nth_time_points [of 0] by simp
  finally show ?thesis using Cons by blast
qed

text \<open>
  Claim C1, as amended. The frame generator builds exactly 20 time points, the point of
  index \<open>i\<close> being \<open>i / 19\<close>: they are equally spaced, begin at 0 and lie in the closed
  interval from 0 to 1. (\<open>numpy.linspace\<close> includes the end point, so the last time
  point is 1 and the interval is not half-open.)
\<close>

theorem time_points_closed_interval:
  "length time_points = 20 \<and>
   (i < 20 \<longrightarrow> time_points ! i = real i / 19 \<and> 0 \<le> time_points ! i \<and> time_points ! i \<le> 1)"
  by (simp add: nth_time_points length_time_points)

theorem time_points_closed_interval_witness:
  "length time_points = 20 \<and>
   ((10::nat) < 20 \<and> time_points ! 10 = 10 / 19 \<and> 0 \<le> time_points ! 10 \<and> time_points ! 10 \<le> 1)"
  using time_points_closed_interval [of 10] by simp

text \<open>
  The claim as stated, every time point \<open>t\<close> satisfying \<open>t < 1\<close>, fails at the last of
  the 20 time points, which is 1.
\<close>

theorem time_points_half_open_counterexample:
  "time_points ! 19 \<in> set time_points \<and> time_points ! 19 = 1 \<and> \<not> time_points ! 19 < 1"
proof -
  have "time_points ! 19 = 1" using nth_time_points [of 19] by simp
  moreover have "time_points ! 19 \<in> set time_points"
    by (rule nth_mem) (simp add: length_time_points)
  ultimately show ?thesis by simp
qed

lemma those_map_defined:
  "(\<And>x. x \<in> set xs \<Longrightarrow> \<exists>y. f x = Some y) \<Longrightarrow> \<exists>ys. those (map f xs) = Some ys"
proof (induction xs)
  case Nil
  show ?case by simp
next
  case (Cons a xs)
  then obtain y where "f a = Some y" by fastforce
  moreover from Cons obtain ys where "those (map f xs) = Some ys" by fastforce
  ultimately show ?case by simp
qed

lemma generate_waveform_defined:
  "k \<in> {''Sine'', ''Square'', ''Sawtooth'', ''Triangle''}
     \<Longrightarrow> \<exists>y. generate_waveform c x t k frq amp ph dmp = Some y"
  by (auto simp add: generate_waveform_def Let_def)

lemma generate_waveform_array_defined:
  assumes "k \<in> {''Sine'', ''Square'', ''Sawtooth'', ''Triangle''}"
  shows "\<exists>ys. generate_waveform_array c xs t k frq amp ph dmp = Some ys"
  unfolding generate_waveform_array_def
  by (rule those_map_defined) (rule generate_waveform_defined [OF assms])

lemma create_animation_frame_defined:
  assumes "waveform c \<in> {''Sine'', ''Square'', ''Sawtooth'', ''Triangle''}"
  shows "\<exists>img. create_animation_frame c t = Inr img"
proof -
  obtain y where y:
    "generate_waveform_array c (linspace 0 2 1000) t (waveform c) (of_int (freq c))
       (amplitude c) (deg2rad (of_int (phase c))) (damping c) = Some y"
    using generate_waveform_array_defined [OF assms] by blast
  obtain py where py:
    "generate_waveform_array c (linspace 0 2 30) t (waveform c) (of_int (freq c))
       (amplitude c) (deg2rad (of_int (phase c))) (damping c) = Some py"
    using generate_waveform_array_defined [OF assms] by blast
  show ?thesis
    by (simp add: create_animation_frame_def Let_def y py)
qed

lemma generate_frames_length:
  "generate_frames fails c n ts acc w = (Inr frames, w')
     \<Longrightarrow> length frames = length acc + length ts"
proof (induction ts arbitrary: acc w)
  case Nil
  then show ?case by auto
next
  case (Cons p ts)
  obtain i t where p: "p = (i, t)" by (cases p)
  from Cons.prems show ?case
    unfolding p
    by (auto split: prod.splits sum.splits dest!: Cons.IH)
qed

lemma generate_frames_completes:
  assumes "\<And>k. \<not> fails k"
    and "waveform c \<in> {''Sine'', ''Square'', ''Sawtooth'', ''Triangle''}"
  shows "\<exists>frames w'. generate_frames fails c n ts acc w = (Inr frames, w')"
proof (induction ts arbitrary: acc w)
  case Nil
  show ?case by simp
next
  case (Cons p ts)
  obtain i t where p: "p = (i, t)" by (cases p)
  obtain img where img: "create_animation_frame c t = Inr img"
    using create_animation_frame_defined [OF assms(2)] by blast
  show ?case
    unfolding p using Cons.IH
    by (simp add: render_def st_progress_def assms(1) img)
qed

text \<open>
  Claim C6. With frequency 5, amplitude 0.8, phase 0 degrees and damping 0, the Sine
  evaluator at time 0 returns 0 at position 0 and 0.8 at position 0.05 (exactly, in real
  arithmetic, since the sine of \<open>pi / 2\<close> is 1); and a frame generation that runs to its
  end has collected exactly 20 frames.
\<close>

theorem sine_scenario_and_twenty_frames:
  "generate_waveform c 0 0 ''Sine'' 5 (8 / 10) (deg2rad 0) 0 = Some 0
   \<and> generate_waveform c (5 / 100) 0 ''Sine'' 5 (8 / 10) (deg2rad 0) 0 = Some (8 / 10)
   \<and> (generate_frames fails c' (length time_points) (enumerate 0 time_points) [] w
         = (Inr frames, w') \<longrightarrow> length frames = 20)"
proof -
  have "generate_waveform c 0 0 ''Sine'' 5 (8 / 10) (deg2rad 0) 0 = Some 0"
    by (simp add: generate_waveform_def effective_amp_def deg2rad_def)
  moreover have "2 * pi * 5 * (5 / 100) = pi / 2" by simp
  then have "generate_waveform c (5 / 100) 0 ''Sine'' 5 (8 / 10) (deg2rad 0) 0 = Some (8 / 10)"
    by (simp add: generate_waveform_def effective_amp_def deg2rad_def)
  moreover have "length frames = 20"
    if "generate_frames fails c' (length time_points) (enumerate 0 time_points) [] w
          = (Inr frames, w')"
    using generate_frames_length [OF that] by (simp add: length_time_points)
  ultimately show ?thesis by blast
qed

theorem sine_scenario_and_twenty_frames_witness:
  "\<exists>frames w'.
     generate_frames never_fails default_controls (length time_points)
       (enumerate 0 time_points) [] initial_world = (Inr frames, w')
     \<and> generate_waveform default_controls 0 0 ''Sine'' 5 (8 / 10) (deg2rad 0) 0 = Some 0
     \<and> generate_waveform default_controls (5 / 100) 0 ''Sine'' 5 (8 / 10) (deg2rad 0) 0
         = Some (8 / 10)
     \<and> length frames = 20"
proof -
  have kn: "waveform default_controls \<in> {''Sine'', ''Square'', ''Sawtooth'', ''Triangle''}"
    by (simp add: default_controls_def)
  have nf: "\<not> never_fails k" for k
    by (simp add: never_fails_def)
  obtain frames w' where run:
    "generate_frames never_fails default_controls (length time_points)
       (enumerate 0 time_points) [] initial_world = (Inr frames, w')"
    using generate_frames_completes [where fails = never_fails, OF nf kn] by blast
  from run sine_scenario_and_twenty_frames
         [of default_controls never_fails default_controls initial_world frames w']
  show ?thesis by blast
qed

section \<open>Properties of the fallback\<close>

lemma update_animation_fails_first_frame:
  assumes "\<not> fails 0" and "fails 1"
  shows "update_animation fails c rounds initial_world
           = (Raised LibraryError, initial_world\<lparr>calls := 2, progress_bar := Some 0\<rparr>)"
proof -
  obtain ts where ts: "time_points = 0 # ts" using time_points_first by blast
  show ?thesis
    using assms
    by (simp add: update_animation_def st_progress_def ts render_def tick_def initial_world_def)
qed

text \<open>
  Claim C7, as amended. If \<open>update_animation\<close> raises any error, in frame generation or
  in display, and the three calls of the handler (drawing the frame of time 0, showing
  it, showing the warning) do not raise themselves, then the loop is not entered again:
  the run ends with exactly these three further calls, the placeholder shows the frame
  drawn at time 0, and one warning has been added. (When a call of the handler raises,
  the error is not caught; the claim as stated does not hold then.)
\<close>

theorem fallback_when_handler_succeeds:
  assumes ua: "update_animation fails c rounds w = (Raised e, w1)"
    and ok: "\<not> fails (calls w1)" "\<not> fails (calls w1 + 1)" "\<not> fails (calls w1 + 2)"
    and kn: "waveform c \<in> {''Sine'', ''Square'', ''Sawtooth'', ''Triangle''}"
  shows "\<exists>img. create_animation_frame c 0 = Inr img \<and>
           run_animation fails c rounds w =
             (Warned, w1\<lparr>calls := calls w1 + 3, placeholder := Some img,
                          warnings := warnings w1 @ [warning_text]\<rparr>)"
proof -
  obtain img where img: "create_animation_frame c 0 = Inr img"
    using create_animation_frame_defined [OF kn] by blast
  have "run_animation fails c rounds w =
             (Warned, w1\<lparr>calls := calls w1 + 3, placeholder := Some img,
                          warnings := warnings w1 @ [warning_text]\<rparr>)"
    using ok
    by (simp add: run_animation_def ua render_def img placeholder_image_def st_warning_def tick_def)
  with img show ?thesis by blast
qed

theorem fallback_when_handler_succeeds_witness:
  "update_animation (fails_once_at 1) default_controls 3 initial_world
      = (Raised LibraryError, initial_world\<lparr>calls := 2, progress_bar := Some 0\<rparr>)
   \<and> \<not> fails_once_at 1 2 \<and> \<not> fails_once_at 1 3 \<and> \<not> fails_once_at 1 4
   \<and> waveform default_controls \<in> {''Sine'', ''Square'', ''Sawtooth'', ''Triangle''}
   \<and> (\<exists>img. create_animation_frame default_controls 0 = Inr img \<and>
         run_animation (fails_once_at 1) default_controls 3 initial_world =
           (Warned, initial_world\<lparr>calls := 5, progress_bar := Some 0, placeholder := Some img,
                                 warnings := [warning_text]\<rparr>))"
proof -
  have ua: "update_animation (fails_once_at 1) default_controls 3 initial_world
      = (Raised LibraryError, initial_world\<lparr>calls := 2, progress_bar := Some 0\<rparr>)"
    by (rule update_animation_fails_first_frame) (simp_all add: fails_once_at_def)
  have kn: "waveform default_controls \<in> {''Sine'', ''Square'', ''Sawtooth'', ''Triangle''}"
    by (simp add: default_controls_def)
  show ?thesis
    using ua kn fallback_when_handler_succeeds [OF ua _ _ _ kn]
    by (simp add: fails_once_at_def initial_world_def)
qed

text \<open>
  The claim as stated fails when drawing keeps raising: the first frame of the loop
  raises, the handler's own drawing of the frame of time 0 raises again, and the run
  ends with an uncaught error, nothing in the placeholder and no warning.
\<close>

theorem fallback_counterexample:
  "fst (update_animation (fails_from 1) default_controls 3 initial_world) = Raised LibraryError
   \<and> fst (run_animation (fails_from 1) default_controls 3 initial_world) = Uncaught LibraryError
   \<and> placeholder (snd (run_animation (fails_from 1) default_controls 3 initial_world)) = None
   \<and> warnings (snd (run_animation (fails_from 1) default_controls 3 initial_world)) = []"
proof -
  have ua: "update_animation (fails_from 1) default_controls 3 initial_world
      = (Raised LibraryError, initial_world\<lparr>calls := 2, progress_bar := Some 0\<rparr>)"
    by (rule update_animation_fails_first_frame) (simp_all add: fails_from_def)
  have run: "run_animation (fails_from 1) default_controls 3 initial_world
      = (Uncaught LibraryError, initial_world\<lparr>calls := 3, progress_bar := Some 0\<rparr>)"
    unfolding run_animation_def ua
    by (simp add: render_def fails_from_def tick_def)
  show ?thesis
    unfolding ua run by (simp add: initial_world_def)
qed

end
